theory Spec2Isabelle
  imports Complex_Main
begin

section \<open>libweave command instances\<close>

text \<open>
  A shallow embedding of \<^verbatim>\<open>libweave/src/commands/command_instance.cc\<close>: the life cycle of
  one command (its status machine), its construction from a JSON request and its
  serialisation. The member functions of \<^verbatim>\<open>CommandInstance\<close> become functions on an
  explicit state; the calls the instance makes on other objects (observer callbacks,
  \<^verbatim>\<open>CommandQueue::DelayedRemove\<close>) are appended to a trace, in the order they are made.
\<close>

subsection \<open>JSON values (\<^verbatim>\<open>base::Value\<close>)\<close>

text \<open>
  The value kinds of \<^verbatim>\<open>base::Value\<close>. A dictionary is an association list; \<^verbatim>\<open>Get\<close> reads the
  first binding of a key and \<^verbatim>\<open>Set\<close> replaces it, so a dictionary built with \<^verbatim>\<open>Set\<close> has every
  key once. The payloads of a double and of a binary value are never inspected by the code
  modelled here. None of
  the keys used below contains a dot, so the path expansion of \<^verbatim>\<open>Get\<close> and \<^verbatim>\<open>Set\<close> does
  not apply.
\<close>

datatype Value =
    NullValue
  | BooleanValue bool
  | IntegerValue int
  | DoubleValue real
  | StringValue string
  | BinaryValue "char list"
  | DictionaryValue "(string \<times> Value) list"
  | ListValue "Value list"

type_synonym Dictionary = "(string \<times> Value) list"

fun GetAsDictionary :: "Value \<Rightarrow> Dictionary option" where
  "GetAsDictionary (DictionaryValue d) = Some d"
| "GetAsDictionary _ = None"

fun GetAsString :: "Value \<Rightarrow> string option" where
  "GetAsString (StringValue s) = Some s"
| "GetAsString _ = None"

definition Get :: "Dictionary \<Rightarrow> string \<Rightarrow> Value option" where
  "Get d key = map_of d key"

definition GetString :: "Dictionary \<Rightarrow> string \<Rightarrow> string option" where
  "GetString d key = (case Get d key of None \<Rightarrow> None | Some v \<Rightarrow> GetAsString v)"

fun Set_dict :: "string \<Rightarrow> Value \<Rightarrow> Dictionary \<Rightarrow> Dictionary" where
  "Set_dict key v [] = [(key, v)]"
| "Set_dict key v ((k, w) # d) =
     (if k = key then (k, v) # d else (k, w) # Set_dict key v d)"

definition SetString :: "string \<Rightarrow> string \<Rightarrow> Dictionary \<Rightarrow> Dictionary" where
  "SetString key s d = Set_dict key (StringValue s) d"

definition keys :: "Dictionary \<Rightarrow> string set" where
  "keys d = fst ` set d"

subsection \<open>Errors (\<^verbatim>\<open>weave::Error\<close>, \<^verbatim>\<open>ErrorPtr\<close>)\<close>

text \<open>
  An error carries a domain, a code, a message and the error it wraps. The string values
  of the domain and code constants live in \<^verbatim>\<open>json_error_codes.h\<close> and
  \<^verbatim>\<open>schema_constants.h\<close>, which are not among the sources; the constants are kept
  symbolic, one constructor each, with one more constructor for the codes that the schema
  validator may report.
\<close>

datatype ErrorDomain = commands_kDomain | json_kDomain | OtherDomain string

datatype ErrorCode =
    kCommandDestroyed
  | kInvalidState
  | kPropertyMissing
  | kInvalidCommandName
  | kCommandFailed
  | kObjectExpected
  | OtherCode string

datatype Error =
  Error (GetDomain: ErrorDomain) (GetCode: ErrorCode) (GetMessage: string)
        (GetInnerError: "Error option")

type_synonym ErrorPtr = "Error option"

text \<open>
  \<^verbatim>\<open>Error::AddTo(error, ...)\<close> puts a new error in the caller's slot, wrapping what the slot
  held. Every function below that takes an \<^verbatim>\<open>ErrorPtr* error\<close> takes the content of the
  slot and returns the new content; a caller that passes \<^verbatim>\<open>nullptr\<close> ignores it.
\<close>

definition AddTo :: "ErrorPtr \<Rightarrow> ErrorDomain \<Rightarrow> ErrorCode \<Rightarrow> string \<Rightarrow> ErrorPtr" where
  "AddTo error domain c msg = Some (Error domain c msg error)"

definition Clone :: "Error \<Rightarrow> Error" where
  "Clone e = e"

fun HasError :: "ErrorPtr \<Rightarrow> ErrorDomain \<Rightarrow> ErrorCode \<Rightarrow> bool" where
  "HasError None domain c = False"
| "HasError (Some (Error d c' m inner)) domain c =
     ((d = domain \<and> c' = c) \<or> HasError inner domain c)"

definition quoted :: "string \<Rightarrow> string" where
  "quoted s = [CHR 0x27] @ s @ [CHR 0x27]"

subsection \<open>Status and origin (\<^verbatim>\<open>weave/command.h\<close>)\<close>

datatype CommandStatus =
    kQueued
  | kInProgress
  | kPaused
  | kError
  | kDone
  | kCancelled
  | kAborted
  | kExpired

datatype CommandOrigin = kLocal | kCloud

definition kMapStatus :: "(CommandStatus \<times> string) list" where
  "kMapStatus =
     [(kQueued, ''queued''),
      (kInProgress, ''inProgress''),
      (kPaused, ''paused''),
      (kError, ''error''),
      (kDone, ''done''),
      (kCancelled, ''cancelled''),
      (kAborted, ''aborted''),
      (kExpired, ''expired'')]"

text \<open>
  \<^verbatim>\<open>EnumToString\<close> is declared in \<^verbatim>\<open>weave/enum_to_string.h\<close>, which is not among the
  sources: it is the lookup of the enumerator in the table the specialisation of
  \<^verbatim>\<open>EnumToStringMap\<close> is built from (\<^verbatim>\<open>kMapStatus\<close> for a status), the first entry winning,
  and the empty string when there is none.
\<close>

fun FindNameById :: "('a \<times> string) list \<Rightarrow> 'a \<Rightarrow> string" where
  "FindNameById [] i = []"
| "FindNameById ((j, n) # m) i = (if j = i then n else FindNameById m i)"

definition EnumToString :: "CommandStatus \<Rightarrow> string" where
  "EnumToString s = FindNameById kMapStatus s"

subsection \<open>Attribute names\<close>

text \<open>
  Modelled from the spec: the constants \<^verbatim>\<open>commands::attributes::kCommand_*\<close> are defined in
  \<^verbatim>\<open>schema_constants.cc\<close>, which is not among the sources. The spec gives the wire shape of
  a request as \<^verbatim>\<open>{id?, name, parameters?}\<close> and of a response as
  \<^verbatim>\<open>{id, name, parameters, progress, results, state, error?}\<close>.
\<close>

definition kCommand_Id :: string where "kCommand_Id = ''id''"
definition kCommand_Name :: string where "kCommand_Name = ''name''"
definition kCommand_Parameters :: string where "kCommand_Parameters = ''parameters''"
definition kCommand_Progress :: string where "kCommand_Progress = ''progress''"
definition kCommand_Results :: string where "kCommand_Results = ''results''"
definition kCommand_State :: string where "kCommand_State = ''state''"
definition kCommand_Error :: string where "kCommand_Error = ''error''"

subsection \<open>Definitions, instances and the outside world\<close>

text \<open>
  A command definition holds the three object schemas; the schema type \<open>'s\<close> and the type
  \<open>'pv\<close> of a typed property value are those of \<^verbatim>\<open>prop_types.h\<close> and \<^verbatim>\<open>prop_values.h\<close>,
  which are not among the sources, so they stay type parameters. A \<^verbatim>\<open>ValueMap\<close> is a map from
  property names to typed values, held as the list of its bindings in key order, and
  compared structurally.
\<close>

record 's CommandDefinition =
  parameters_schema :: 's
  progress_schema :: 's
  results_schema :: 's

type_synonym 'pv ValueMap = "(string \<times> 'pv) list"

type_synonym Observer = nat

type_synonym CommandQueue = nat

text \<open>
  The members of \<^verbatim>\<open>CommandInstance\<close>; the member \<^verbatim>\<open>status_\<close> is written \<open>m_status\<close>,
  as a name may not end in an underscore, and so for the others. Pointers that may be null are options: the command
  definition, the error and the owning queue (named by its address). The observer list
  holds the addresses of the registered observers in registration order.
\<close>

record ('s, 'pv) CommandInstance =
  m_id :: string
  m_name :: string
  m_origin :: CommandOrigin
  m_command_definition :: "'s CommandDefinition option"
  m_parameters :: "'pv ValueMap"
  m_progress :: "'pv ValueMap"
  m_results :: "'pv ValueMap"
  m_status :: CommandStatus
  m_error :: ErrorPtr
  m_observers :: "Observer list"
  m_queue :: "CommandQueue option"

text \<open>
  What the instance calls on other objects. Modelled from the spec: \<^verbatim>\<open>CommandQueue\<close> is not
  among the sources; its \<^verbatim>\<open>DelayedRemove(id)\<close> schedules the removal of the command with that
  id once the current call stack has returned, so the call itself changes nothing the
  instance can see and is recorded as an event.
\<close>

datatype Call =
    OnStatusChanged Observer
  | OnProgressChanged Observer
  | OnResultsChanged Observer
  | DelayedRemove CommandQueue string

record ('s, 'pv) State =
  self :: "('s, 'pv) CommandInstance"
  calls :: "Call list"

text \<open>
  \<^verbatim>\<open>FOR_EACH_OBSERVER\<close> calls one method on every registered observer, in order. The callbacks
  are taken not to call back into the instance.
\<close>

definition FOR_EACH_OBSERVER ::
  "(Observer \<Rightarrow> Call) \<Rightarrow> ('s, 'pv) State \<Rightarrow> ('s, 'pv) State" where
  "FOR_EACH_OBSERVER method st = st\<lparr>calls := calls st @ map method (m_observers (self st))\<rparr>"

subsection \<open>The constructor and the setters of the header\<close>

definition CommandInstance ::
  "string \<Rightarrow> CommandOrigin \<Rightarrow> 's CommandDefinition \<Rightarrow> 'pv ValueMap \<Rightarrow> ('s, 'pv) CommandInstance" where
  "CommandInstance name origin command_definition parameters =
     \<lparr>m_id = [], m_name = name, m_origin = origin,
      m_command_definition = Some command_definition,
      m_parameters = parameters, m_progress = [], m_results = [],
      m_status = kQueued, m_error = None, m_observers = [], m_queue = None\<rparr>"

definition SetID :: "string \<Rightarrow> ('s, 'pv) CommandInstance \<Rightarrow> ('s, 'pv) CommandInstance" where
  "SetID i c = c\<lparr>m_id := i\<rparr>"

definition SetCommandQueue ::
  "CommandQueue option \<Rightarrow> ('s, 'pv) CommandInstance \<Rightarrow> ('s, 'pv) CommandInstance" where
  "SetCommandQueue q c = c\<lparr>m_queue := q\<rparr>"

definition GetError :: "('s, 'pv) CommandInstance \<Rightarrow> ErrorPtr" where
  "GetError c = m_error c"

subsection \<open>Reporting errors\<close>

definition ReportDestroyedError :: "ErrorPtr \<Rightarrow> bool \<times> ErrorPtr" where
  "ReportDestroyedError error =
     (False, AddTo error commands_kDomain kCommandDestroyed ''Command has been destroyed'')"

definition ReportInvalidStateTransition ::
  "ErrorPtr \<Rightarrow> CommandStatus \<Rightarrow> CommandStatus \<Rightarrow> bool \<times> ErrorPtr" where
  "ReportInvalidStateTransition error from to =
     (False, AddTo error commands_kDomain kInvalidState
        (''State switch impossible: '' @ quoted (EnumToString from) @ '' -> ''
           @ quoted (EnumToString to)))"

subsection \<open>The status machine\<close>

text \<open>
  The \<^verbatim>\<open>switch\<close> of \<^verbatim>\<open>SetStatus\<close> returns the error for the four terminal statuses and
  breaks for the other four; it is the condition of the third test below.
\<close>

definition SetStatus ::
  "CommandStatus \<Rightarrow> ErrorPtr \<Rightarrow> ('s, 'pv) State \<Rightarrow> bool \<times> ErrorPtr \<times> ('s, 'pv) State" where
  "SetStatus status error st =
     (if status = m_status (self st) then (True, error, st)
      else if status = kQueued then
        (case ReportInvalidStateTransition error (m_status (self st)) status of
           (r, e) \<Rightarrow> (r, e, st))
      else if (case m_status (self st) of
                 kDone \<Rightarrow> True
               | kCancelled \<Rightarrow> True
               | kAborted \<Rightarrow> True
               | kExpired \<Rightarrow> True
               | kQueued \<Rightarrow> False
               | kInProgress \<Rightarrow> False
               | kPaused \<Rightarrow> False
               | kError \<Rightarrow> False) then
        (case ReportInvalidStateTransition error (m_status (self st)) status of
           (r, e) \<Rightarrow> (r, e, st))
      else
        (True, error,
         FOR_EACH_OBSERVER OnStatusChanged (st\<lparr>self := (self st)\<lparr>m_status := status\<rparr>\<rparr>)))"

definition RemoveFromQueue :: "('s, 'pv) State \<Rightarrow> ('s, 'pv) State" where
  "RemoveFromQueue st =
     (case m_queue (self st) of
        None \<Rightarrow> st
      | Some q \<Rightarrow> st\<lparr>calls := calls st @ [DelayedRemove q (m_id (self st))]\<rparr>)"

subsection \<open>The operations of \<^verbatim>\<open>Command\<close>\<close>

text \<open>
  \<^verbatim>\<open>TypedValueFromJson\<close> (in \<^verbatim>\<open>schema_utils\<close>, not among the sources) validates a dictionary
  against an object schema. It is a parameter \<open>tvfj\<close> of the functions that call it: given
  the schema, the dictionary and the caller's error slot it returns the typed value, or
  the new content of the error slot when validation fails.
\<close>

type_synonym ('s, 'pv) validator = "'s \<Rightarrow> Dictionary \<Rightarrow> ErrorPtr \<Rightarrow> ErrorPtr + 'pv ValueMap"

definition SetProgress ::
  "('s, 'pv) validator \<Rightarrow> Dictionary \<Rightarrow> ErrorPtr \<Rightarrow> ('s, 'pv) State
     \<Rightarrow> bool \<times> ErrorPtr \<times> ('s, 'pv) State" where
  "SetProgress tvfj progress error st =
     (case m_command_definition (self st) of
        None \<Rightarrow> (case ReportDestroyedError error of (r, e) \<Rightarrow> (r, e, st))
      | Some def \<Rightarrow>
          (case tvfj (progress_schema def) progress error of
             Inl e \<Rightarrow> (False, e, st)
           | Inr obj \<Rightarrow>
               (case SetStatus kInProgress error st of
                  (r, e, st1) \<Rightarrow>
                    if \<not> r then (False, e, st1)
                    else if obj \<noteq> m_progress (self st1) then
                      (True, e,
                       FOR_EACH_OBSERVER OnProgressChanged
                         (st1\<lparr>self := (self st1)\<lparr>m_progress := obj\<rparr>\<rparr>))
                    else (True, e, st1))))"

definition SetResults ::
  "('s, 'pv) validator \<Rightarrow> Dictionary \<Rightarrow> ErrorPtr \<Rightarrow> ('s, 'pv) State
     \<Rightarrow> bool \<times> ErrorPtr \<times> ('s, 'pv) State" where
  "SetResults tvfj results error st =
     (case m_command_definition (self st) of
        None \<Rightarrow> (case ReportDestroyedError error of (r, e) \<Rightarrow> (r, e, st))
      | Some def \<Rightarrow>
          (case tvfj (results_schema def) results error of
             Inl e \<Rightarrow> (False, e, st)
           | Inr obj \<Rightarrow>
               (let st1 = (if obj \<noteq> m_results (self st)
                           then FOR_EACH_OBSERVER OnResultsChanged
                                  (st\<lparr>self := (self st)\<lparr>m_results := obj\<rparr>\<rparr>)
                           else st)
                in case SetStatus kDone error st1 of
                     (result, e, st2) \<Rightarrow> (result, e, RemoveFromQueue st2))))"

definition SetError ::
  "Error option \<Rightarrow> ErrorPtr \<Rightarrow> ('s, 'pv) State \<Rightarrow> bool \<times> ErrorPtr \<times> ('s, 'pv) State" where
  "SetError command_error error st =
     SetStatus kError error
       (st\<lparr>self := (self st)\<lparr>m_error := map_option Clone command_error\<rparr>\<rparr>)"

definition Pause :: "ErrorPtr \<Rightarrow> ('s, 'pv) State \<Rightarrow> bool \<times> ErrorPtr \<times> ('s, 'pv) State" where
  "Pause error st = SetStatus kPaused error st"

definition Abort ::
  "Error option \<Rightarrow> ErrorPtr \<Rightarrow> ('s, 'pv) State \<Rightarrow> bool \<times> ErrorPtr \<times> ('s, 'pv) State" where
  "Abort command_error error st =
     (case SetStatus kAborted error
             (st\<lparr>self := (self st)\<lparr>m_error := map_option Clone command_error\<rparr>\<rparr>) of
        (result, e, st1) \<Rightarrow> (result, e, RemoveFromQueue st1))"

definition Cancel :: "ErrorPtr \<Rightarrow> ('s, 'pv) State \<Rightarrow> bool \<times> ErrorPtr \<times> ('s, 'pv) State" where
  "Cancel error st =
     (case SetStatus kCancelled error st of
        (result, e, st1) \<Rightarrow> (result, e, RemoveFromQueue st1))"

subsection \<open>Construction from a request\<close>

definition GetCommandParameters ::
  "('s, 'pv) validator \<Rightarrow> Dictionary \<Rightarrow> 's CommandDefinition \<Rightarrow> ErrorPtr
     \<Rightarrow> ErrorPtr + 'pv ValueMap" where
  "GetCommandParameters tvfj json command_def error =
     (case Get json kCommand_Parameters of
        Some params_value \<Rightarrow>
          (case GetAsDictionary params_value of
             None \<Rightarrow>
               Inl (AddTo error json_kDomain kObjectExpected
                      (''Property '' @ quoted kCommand_Parameters @ '' must be a JSON object''))
           | Some params \<Rightarrow> tvfj (parameters_schema command_def) params error)
      | None \<Rightarrow> tvfj (parameters_schema command_def) [] error)"

text \<open>
  \<^verbatim>\<open>CommandDictionary::FindCommand\<close> (not among the sources) looks a definition up by the
  exact name; the dictionary is the partial map it computes. \<^verbatim>\<open>FromJson\<close> returns the
  instance (or null), the command id written through \<^verbatim>\<open>command_id\<close> and the error slot.
\<close>

type_synonym 's CommandDictionary = "string \<Rightarrow> 's CommandDefinition option"

definition FindCommand :: "'s CommandDictionary \<Rightarrow> string \<Rightarrow> 's CommandDefinition option" where
  "FindCommand dictionary name = dictionary name"

definition FromJson ::
  "('s, 'pv) validator \<Rightarrow> Value \<Rightarrow> CommandOrigin \<Rightarrow> 's CommandDictionary \<Rightarrow> ErrorPtr
     \<Rightarrow> ('s, 'pv) CommandInstance option \<times> string \<times> ErrorPtr" where
  "FromJson tvfj v origin dictionary error =
     (case GetAsDictionary v of
        None \<Rightarrow>
          (None, [],
           AddTo error json_kDomain kObjectExpected ''Command instance is not a JSON object'')
      | Some json \<Rightarrow>
          (let command_id = (case GetString json kCommand_Id of Some s \<Rightarrow> s | None \<Rightarrow> [])
           in case GetString json kCommand_Name of
                None \<Rightarrow>
                  (None, command_id,
                   AddTo error commands_kDomain kPropertyMissing ''Command name is missing'')
              | Some command_name \<Rightarrow>
                  (case FindCommand dictionary command_name of
                     None \<Rightarrow>
                       (None, command_id,
                        AddTo error commands_kDomain kInvalidCommandName
                          (''Unknown command received: '' @ command_name))
                   | Some command_def \<Rightarrow>
                       (case GetCommandParameters tvfj json command_def error of
                          Inl e \<Rightarrow>
                            (None, command_id,
                             AddTo e commands_kDomain kCommandFailed
                               (''Failed to validate command '' @ quoted command_name))
                        | Inr parameters \<Rightarrow>
                            (let instance =
                                   CommandInstance command_name origin command_def parameters
                             in (Some (if command_id \<noteq> [] then SetID command_id instance
                                       else instance),
                                 command_id, error))))))"

subsection \<open>Serialisation\<close>

text \<open>
  \<^verbatim>\<open>TypedValueToJson\<close> and \<^verbatim>\<open>ErrorInfoToJson\<close> (not among the sources) are the parameters
  \<open>tvtj\<close> and \<open>eitj\<close>.
\<close>

definition ToJson ::
  "('pv ValueMap \<Rightarrow> Value) \<Rightarrow> (Error \<Rightarrow> Value) \<Rightarrow> ('s, 'pv) CommandInstance \<Rightarrow> Dictionary" where
  "ToJson tvtj eitj c =
     (let json = [];
          json = SetString kCommand_Id (m_id c) json;
          json = SetString kCommand_Name (m_name c) json;
          json = Set_dict kCommand_Parameters (tvtj (m_parameters c)) json;
          json = Set_dict kCommand_Progress (tvtj (m_progress c)) json;
          json = Set_dict kCommand_Results (tvtj (m_results c)) json;
          json = SetString kCommand_State (EnumToString (m_status c)) json
      in case m_error c of
           None \<Rightarrow> json
         | Some e \<Rightarrow> Set_dict kCommand_Error (eitj e) json)"

subsection \<open>Vocabulary of the specification\<close>

text \<open>
  The terminal statuses, the error the specification calls
  \<^verbatim>\<open>InvalidStateTransition(from, to)\<close> (the slot after \<^verbatim>\<open>ReportInvalidStateTransition\<close>), and
  the best-effort id of a request: the string under \<^verbatim>\<open>id\<close> when the request is an object
  that has one, the empty string otherwise.
\<close>

definition terminal :: "CommandStatus \<Rightarrow> bool" where
  "terminal s = (s = kDone \<or> s = kCancelled \<or> s = kAborted \<or> s = kExpired)"

definition InvalidStateTransition :: "ErrorPtr \<Rightarrow> CommandStatus \<Rightarrow> CommandStatus \<Rightarrow> ErrorPtr" where
  "InvalidStateTransition error from to =
     Some (Error commands_kDomain kInvalidState
             (''State switch impossible: '' @ quoted (EnumToString from) @ '' -> ''
                @ quoted (EnumToString to))
             error)"

fun best_effort_id :: "Value \<Rightarrow> string" where
  "best_effort_id (DictionaryValue d) =
     (case map_of d ''id'' of Some (StringValue s) \<Rightarrow> s | _ \<Rightarrow> [])"
| "best_effort_id _ = []"

definition notify :: "bool \<Rightarrow> (Observer \<Rightarrow> Call) \<Rightarrow> ('s, 'pv) CommandInstance \<Rightarrow> Call list" where
  "notify changed method c = (if changed then map method (m_observers c) else [])"

definition removal :: "('s, 'pv) CommandInstance \<Rightarrow> Call list" where
  "removal c = (case m_queue c of None \<Rightarrow> [] | Some q \<Rightarrow> [DelayedRemove q (m_id c)])"

subsection \<open>A concrete setting\<close>

text \<open>
  To run the functions on concrete requests: a schema is the list of the property names it
  allows, a typed value is the JSON value itself, and the validator rejects a dictionary
  with a property the schema does not name. The dictionary knows one command, the
  \<^verbatim>\<open>lock.setConfig\<close> of \<^verbatim>\<open>examples/daemon/lock/lock.cc\<close>.
\<close>

definition names_validator :: "(string list, Value) validator" where
  "names_validator schema d error =
     (if list_all (\<lambda>p. fst p \<in> set schema) d then Inr d
      else Inl (AddTo error commands_kDomain (OtherCode ''unexpected_parameter'')
                  ''Unrecognized property''))"

definition lock_setConfig :: "string list CommandDefinition" where
  "lock_setConfig =
     \<lparr>parameters_schema = [''lockedState''], progress_schema = [''percent''],
      results_schema = [''code'']\<rparr>"

definition lock_dictionary :: "string list CommandDictionary" where
  "lock_dictionary name = (if name = ''lock.setConfig'' then Some lock_setConfig else None)"

definition lock_command :: "CommandStatus \<Rightarrow> (string list, Value) State" where
  "lock_command s =
     \<lparr>self = (CommandInstance ''lock.setConfig'' kCloud lock_setConfig
                 [(''lockedState'', StringValue ''locked'')])
               \<lparr>m_id := ''1'', m_status := s, m_observers := [7], m_queue := Some 3\<rparr>,
      calls = []\<rparr>"

section \<open>Properties\<close>

lemmas kCommand_defs =
  kCommand_Id_def kCommand_Name_def kCommand_Parameters_def kCommand_Progress_def
  kCommand_Results_def kCommand_State_def kCommand_Error_def

lemmas lock_defs =
  lock_command_def lock_setConfig_def lock_dictionary_def CommandInstance_def
  names_validator_def

subsection \<open>The three outcomes of \<^verbatim>\<open>SetStatus\<close>\<close>

lemma SetStatus_same: "SetStatus (m_status (self st)) error st = (True, error, st)"
  by (simp add: SetStatus_def)

lemma SetStatus_to_queued:
  "m_status (self st) \<noteq> kQueued \<Longrightarrow>
   SetStatus kQueued error st = (False, InvalidStateTransition error (m_status (self st)) kQueued, st)"
  by (simp add: SetStatus_def ReportInvalidStateTransition_def InvalidStateTransition_def
      AddTo_def)

lemma SetStatus_terminal:
  assumes "terminal (m_status (self st))" and "s \<noteq> m_status (self st)"
  shows "SetStatus s error st = (False, InvalidStateTransition error (m_status (self st)) s, st)"
  using assms
  by (auto simp: SetStatus_def terminal_def ReportInvalidStateTransition_def
      InvalidStateTransition_def AddTo_def)

lemma SetStatus_live:
  assumes "\<not> terminal (m_status (self st))" and "s \<noteq> m_status (self st)" and "s \<noteq> kQueued"
  shows "SetStatus s error st =
           (True, error,
            FOR_EACH_OBSERVER OnStatusChanged (st\<lparr>self := (self st)\<lparr>m_status := s\<rparr>\<rparr>))"
proof (cases "m_status (self st)")
  case kQueued
  with assms show ?thesis by (simp add: SetStatus_def)
next
  case kInProgress
  with assms show ?thesis by (simp add: SetStatus_def)
next
  case kPaused
  with assms show ?thesis by (simp add: SetStatus_def)
next
  case kError
  with assms show ?thesis by (simp add: SetStatus_def)
qed (use assms in \<open>simp_all add: terminal_def\<close>)

lemma terminal_simps:
  "terminal kDone" "terminal kCancelled" "terminal kAborted" "terminal kExpired"
  "\<not> terminal kQueued" "\<not> terminal kInProgress" "\<not> terminal kPaused" "\<not> terminal kError"
  by (simp_all add: terminal_def)

lemma SetStatus_kInProgress:
  "SetStatus kInProgress error st =
     (if terminal (m_status (self st)) then
        (False, InvalidStateTransition error (m_status (self st)) kInProgress, st)
      else
        (True, error,
         st\<lparr>self := (self st)\<lparr>m_status := kInProgress\<rparr>,
            calls := calls st @ notify (m_status (self st) \<noteq> kInProgress) OnStatusChanged (self st)\<rparr>))"
proof (cases "terminal (m_status (self st))")
  case True
  then have "kInProgress \<noteq> m_status (self st)"
    by (auto simp: terminal_def)
  with True show ?thesis
    by (simp add: SetStatus_terminal)
next
  case False
  show ?thesis
  proof (cases "m_status (self st) = kInProgress")
    case True
    with False SetStatus_same [of st error] show ?thesis
      by (simp add: notify_def)
  next
    case ne: False
    then have "kInProgress \<noteq> m_status (self st)"
      by simp
    with False show ?thesis
      by (simp add: SetStatus_live FOR_EACH_OBSERVER_def notify_def)
  qed
qed

lemma SetStatus_cases:
  assumes "s \<noteq> kQueued"
  shows "SetStatus s error st =
     (if s = m_status (self st) then (True, error, st)
      else if terminal (m_status (self st)) then
        (False, InvalidStateTransition error (m_status (self st)) s, st)
      else
        (True, error,
         st\<lparr>self := (self st)\<lparr>m_status := s\<rparr>,
            calls := calls st @ map OnStatusChanged (m_observers (self st))\<rparr>))"
proof (cases "s = m_status (self st)")
  case True
  then show ?thesis
    using SetStatus_same [of st error] by simp
next
  case False
  with assms show ?thesis
    by (simp add: SetStatus_terminal SetStatus_live FOR_EACH_OBSERVER_def)
qed

lemma map_option_Clone: "map_option Clone ce = ce"
  by (cases ce) (simp_all add: Clone_def)

subsection \<open>Terminal statuses and the transition to \<^verbatim>\<open>Queued\<close>\<close>

text \<open>
  C1, as the claim states it, fails twice. A request for the status the instance already
  has succeeds, also in a terminal status. And \<^verbatim>\<open>SetResults\<close> replaces the results before
  it asks for the transition, so on a cancelled command the results change although the
  call fails.
\<close>

theorem terminal_same_status_succeeds:
  "SetStatus kDone None (lock_command kDone) = (True, None, lock_command kDone)
   \<and> fst (SetResults names_validator [(''code'', IntegerValue 0)] None (lock_command kCancelled))
       = False
   \<and> m_results (self (lock_command kCancelled)) = []
   \<and> m_results (self (snd (snd (SetResults names_validator [(''code'', IntegerValue 0)] None
                                   (lock_command kCancelled)))))
       = [(''code'', IntegerValue 0)]"
  by (simp add: SetStatus_def SetResults_def lock_defs FOR_EACH_OBSERVER_def
      RemoveFromQueue_def ReportInvalidStateTransition_def)

text \<open>
  C1, amended. On an instance in a terminal status, a request for any other status fails
  with \<^verbatim>\<open>InvalidStateTransition\<close> and changes nothing; so do \<^verbatim>\<open>SetProgress\<close> (with a valid
  document) and \<^verbatim>\<open>Pause\<close>. \<^verbatim>\<open>SetError\<close>, \<^verbatim>\<open>Abort\<close> (unless already aborted) and \<^verbatim>\<open>Cancel\<close>
  (unless already cancelled) fail the same way and leave status, progress and results as
  they were: \<^verbatim>\<open>SetError\<close> and \<^verbatim>\<open>Abort\<close> touch only the stored error, \<^verbatim>\<open>Abort\<close> and
  \<^verbatim>\<open>Cancel\<close> only add the removal request. \<^verbatim>\<open>SetResults\<close> with a valid document (unless the
  command is already done) fails the same way and leaves status and progress as they were.
\<close>

theorem terminal_finality:
  assumes "terminal (m_status (self st))"
  shows
    "(s \<noteq> m_status (self st) \<longrightarrow>
        SetStatus s error st = (False, InvalidStateTransition error (m_status (self st)) s, st))
     \<and> (m_command_definition (self st) = Some cdef
          \<and> tvfj (progress_schema cdef) doc error = Inr obj \<longrightarrow>
        SetProgress tvfj doc error st =
          (False, InvalidStateTransition error (m_status (self st)) kInProgress, st))
     \<and> SetError ce error st =
          (False, InvalidStateTransition error (m_status (self st)) kError,
           st\<lparr>self := (self st)\<lparr>m_error := ce\<rparr>\<rparr>)
     \<and> Pause error st = (False, InvalidStateTransition error (m_status (self st)) kPaused, st)
     \<and> (m_status (self st) \<noteq> kAborted \<longrightarrow>
        Abort ce error st =
          (False, InvalidStateTransition error (m_status (self st)) kAborted,
           st\<lparr>self := (self st)\<lparr>m_error := ce\<rparr>, calls := calls st @ removal (self st)\<rparr>))
     \<and> (m_status (self st) \<noteq> kCancelled \<longrightarrow>
        Cancel error st =
          (False, InvalidStateTransition error (m_status (self st)) kCancelled,
           st\<lparr>calls := calls st @ removal (self st)\<rparr>))
     \<and> (m_status (self st) \<noteq> kDone \<and> m_command_definition (self st) = Some cdef
          \<and> tvfj (results_schema cdef) rdoc error = Inr robj \<longrightarrow>
        fst (SetResults tvfj rdoc error st) = False
        \<and> fst (snd (SetResults tvfj rdoc error st))
            = InvalidStateTransition error (m_status (self st)) kDone
        \<and> m_status (self (snd (snd (SetResults tvfj rdoc error st)))) = m_status (self st)
        \<and> m_progress (self (snd (snd (SetResults tvfj rdoc error st)))) = m_progress (self st))"
proof -
  let ?t = "m_status (self st)"
  have direct: "SetStatus s error st = (False, InvalidStateTransition error ?t s, st)"
    if "s \<noteq> ?t" for s
    using assms that by (rule SetStatus_terminal)
  have live: "kInProgress \<noteq> ?t" "kError \<noteq> ?t" "kPaused \<noteq> ?t"
    using assms by (auto simp: terminal_def)
  have progress: "SetProgress tvfj doc error st = (False, InvalidStateTransition error ?t kInProgress, st)"
    if "m_command_definition (self st) = Some cdef" "tvfj (progress_schema cdef) doc error = Inr obj"
    using that direct [OF live(1)] by (simp add: SetProgress_def)
  have err: "SetError ce error st =
      (False, InvalidStateTransition error ?t kError, st\<lparr>self := (self st)\<lparr>m_error := ce\<rparr>\<rparr>)"
  proof -
    let ?st = "st\<lparr>self := (self st)\<lparr>m_error := ce\<rparr>\<rparr>"
    have "terminal (m_status (self ?st))" "kError \<noteq> m_status (self ?st)"
      using assms live by simp_all
    then have "SetStatus kError error ?st
        = (False, InvalidStateTransition error (m_status (self ?st)) kError, ?st)"
      by (rule SetStatus_terminal)
    then show ?thesis
      by (simp add: SetError_def map_option_Clone)
  qed
  have pause: "Pause error st = (False, InvalidStateTransition error ?t kPaused, st)"
    using direct [OF live(3)] by (simp add: Pause_def)
  have abort: "Abort ce error st =
      (False, InvalidStateTransition error ?t kAborted,
       st\<lparr>self := (self st)\<lparr>m_error := ce\<rparr>, calls := calls st @ removal (self st)\<rparr>)"
    if "?t \<noteq> kAborted"
  proof -
    let ?st = "st\<lparr>self := (self st)\<lparr>m_error := ce\<rparr>\<rparr>"
    have "terminal (m_status (self ?st))" "kAborted \<noteq> m_status (self ?st)"
      using assms that by auto
    then have "SetStatus kAborted error ?st
        = (False, InvalidStateTransition error (m_status (self ?st)) kAborted, ?st)"
      by (rule SetStatus_terminal)
    then show ?thesis
      by (simp add: Abort_def map_option_Clone RemoveFromQueue_def removal_def split: option.split)
  qed
  have cancel: "Cancel error st =
      (False, InvalidStateTransition error ?t kCancelled, st\<lparr>calls := calls st @ removal (self st)\<rparr>)"
    if "?t \<noteq> kCancelled"
  proof -
    from that have "kCancelled \<noteq> ?t" by simp
    from direct [OF this] show ?thesis
      by (simp add: Cancel_def RemoveFromQueue_def removal_def split: option.split)
  qed
  have results:
    "fst (SetResults tvfj rdoc error st) = False
     \<and> fst (snd (SetResults tvfj rdoc error st)) = InvalidStateTransition error ?t kDone
     \<and> m_status (self (snd (snd (SetResults tvfj rdoc error st)))) = ?t
     \<and> m_progress (self (snd (snd (SetResults tvfj rdoc error st)))) = m_progress (self st)"
    if "?t \<noteq> kDone" "m_command_definition (self st) = Some cdef"
       "tvfj (results_schema cdef) rdoc error = Inr robj"
  proof -
    define st1 where "st1 =
      (if robj \<noteq> m_results (self st)
       then FOR_EACH_OBSERVER OnResultsChanged (st\<lparr>self := (self st)\<lparr>m_results := robj\<rparr>\<rparr>)
       else st)"
    have same: "m_status (self st1) = ?t" "m_progress (self st1) = m_progress (self st)"
      by (simp_all add: st1_def FOR_EACH_OBSERVER_def)
    then have "terminal (m_status (self st1))" "kDone \<noteq> m_status (self st1)"
      using assms that(1) by auto
    then have "SetStatus kDone error st1
        = (False, InvalidStateTransition error (m_status (self st1)) kDone, st1)"
      by (rule SetStatus_terminal)
    moreover have "SetResults tvfj rdoc error st =
        (case SetStatus kDone error st1 of (result, e, st2) \<Rightarrow> (result, e, RemoveFromQueue st2))"
      using that(2,3) by (simp add: SetResults_def st1_def Let_def)
    ultimately show ?thesis
      using same by (simp add: RemoveFromQueue_def split: option.split)
  qed
  from direct progress err pause abort cancel results show ?thesis
    by blast
qed

theorem terminal_finality_witness:
  "terminal (m_status (self (lock_command kExpired)))
   \<and> SetStatus kInProgress None (lock_command kExpired)
       = (False, InvalidStateTransition None kExpired kInProgress, lock_command kExpired)
   \<and> SetProgress names_validator [(''percent'', IntegerValue 5)] None (lock_command kExpired)
       = (False, InvalidStateTransition None kExpired kInProgress, lock_command kExpired)
   \<and> Pause None (lock_command kExpired)
       = (False, InvalidStateTransition None kExpired kPaused, lock_command kExpired)
   \<and> fst (Abort None None (lock_command kExpired)) = False
   \<and> fst (Cancel None (lock_command kExpired)) = False
   \<and> fst (SetError None None (lock_command kExpired)) = False
   \<and> m_status (self (snd (snd (SetResults names_validator [(''code'', IntegerValue 0)] None
                                  (lock_command kExpired))))) = kExpired"
  using terminal_finality [where st = "lock_command kExpired" and s = kInProgress
      and error = None and tvfj = names_validator and ce = None
      and doc = "[(''percent'', IntegerValue 5)]" and obj = "[(''percent'', IntegerValue 5)]"
      and rdoc = "[(''code'', IntegerValue 0)]" and robj = "[(''code'', IntegerValue 0)]"
      and cdef = lock_setConfig]
  by (simp add: lock_defs terminal_def)

text \<open>
  C2, as the claim states it, fails on a queued instance: the request for \<^verbatim>\<open>Queued\<close> is then
  a request for the current status, which \<^verbatim>\<open>SetStatus\<close> tests first.
\<close>

theorem requeue_of_queued_succeeds:
  "SetStatus kQueued None (lock_command kQueued) = (True, None, lock_command kQueued)"
  by (simp add: SetStatus_def lock_defs)

text \<open>
  C2, amended. From every status other than \<^verbatim>\<open>Queued\<close>, the request for \<^verbatim>\<open>Queued\<close> fails
  with \<^verbatim>\<open>InvalidStateTransition\<close> and changes nothing.
\<close>

theorem no_requeue:
  assumes "m_status (self st) \<noteq> kQueued"
  shows "SetStatus kQueued error st
           = (False, InvalidStateTransition error (m_status (self st)) kQueued, st)"
  using assms by (rule SetStatus_to_queued)

theorem no_requeue_witness:
  "m_status (self (lock_command kPaused)) \<noteq> kQueued
   \<and> SetStatus kQueued None (lock_command kPaused)
       = (False, InvalidStateTransition None kPaused kQueued, lock_command kPaused)"
  using no_requeue [of "lock_command kPaused" None]
  by (simp add: lock_defs)

subsection \<open>Requests for the current status\<close>

text \<open>
  C3. A request for the status the instance has returns success, leaves the instance and
  the error slot as they were, and calls no observer.
\<close>

theorem same_status_noop:
  assumes "m_status (self st) = s"
  shows "SetStatus s error st = (True, error, st)
         \<and> calls (snd (snd (SetStatus s error st))) = calls st"
  using assms SetStatus_same [of st error] by auto

theorem same_status_noop_witness:
  "m_status (self (lock_command kError)) = kError
   \<and> SetStatus kError None (lock_command kError) = (True, None, lock_command kError)
   \<and> calls (snd (snd (SetStatus kError None (lock_command kError)))) = []"
  using same_status_noop [of "lock_command kError" kError None]
  by (simp add: lock_defs)

subsection \<open>\<^verbatim>\<open>SetProgress\<close> and \<^verbatim>\<open>SetResults\<close>\<close>

text \<open>
  C4. With a definition attached and a document the progress schema accepts, \<^verbatim>\<open>SetProgress\<close>
  returns what the transition to \<^verbatim>\<open>InProgress\<close> returns, whatever the new progress is. From
  a terminal status that is the \<^verbatim>\<open>InvalidStateTransition\<close> failure, and nothing changes.
  Otherwise the call succeeds, the status is \<^verbatim>\<open>InProgress\<close> (the observers hearing of it when
  it was not), and the progress is the new value, the observers being told of a progress
  change exactly when the new value differs from the stored one.
\<close>

theorem SetProgress_contract:
  assumes "m_command_definition (self st) = Some cdef"
    and "tvfj (progress_schema cdef) doc error = Inr obj"
  shows
    "fst (SetProgress tvfj doc error st) = fst (SetStatus kInProgress error st)
     \<and> fst (snd (SetProgress tvfj doc error st)) = fst (snd (SetStatus kInProgress error st))
     \<and> SetProgress tvfj doc error st =
         (if terminal (m_status (self st)) then
            (False, InvalidStateTransition error (m_status (self st)) kInProgress, st)
          else
            (True, error,
             st\<lparr>self := (self st)\<lparr>m_status := kInProgress, m_progress := obj\<rparr>,
                calls := calls st
                  @ notify (m_status (self st) \<noteq> kInProgress) OnStatusChanged (self st)
                  @ notify (obj \<noteq> m_progress (self st)) OnProgressChanged (self st)\<rparr>))"
proof -
  have unfolded: "SetProgress tvfj doc error st =
      (case SetStatus kInProgress error st of
         (r, e, st1) \<Rightarrow>
           if \<not> r then (False, e, st1)
           else if obj \<noteq> m_progress (self st1) then
             (True, e,
              FOR_EACH_OBSERVER OnProgressChanged (st1\<lparr>self := (self st1)\<lparr>m_progress := obj\<rparr>\<rparr>))
           else (True, e, st1))"
    using assms by (simp add: SetProgress_def)
  have outcome: "fst (SetProgress tvfj doc error st) = fst (SetStatus kInProgress error st)"
    "fst (snd (SetProgress tvfj doc error st)) = fst (snd (SetStatus kInProgress error st))"
    unfolding unfolded by (simp_all split: prod.split)
  have result: "SetProgress tvfj doc error st =
         (if terminal (m_status (self st)) then
            (False, InvalidStateTransition error (m_status (self st)) kInProgress, st)
          else
            (True, error,
             st\<lparr>self := (self st)\<lparr>m_status := kInProgress, m_progress := obj\<rparr>,
                calls := calls st
                  @ notify (m_status (self st) \<noteq> kInProgress) OnStatusChanged (self st)
                  @ notify (obj \<noteq> m_progress (self st)) OnProgressChanged (self st)\<rparr>))"
    unfolding unfolded SetStatus_kInProgress
    by (simp add: FOR_EACH_OBSERVER_def notify_def)
  from outcome result show ?thesis
    by blast
qed

theorem SetProgress_contract_witness:
  "m_command_definition (self (lock_command kError)) = Some lock_setConfig
   \<and> names_validator (progress_schema lock_setConfig) [] None = Inr []
   \<and> m_progress (self (lock_command kError)) = []
   \<and> SetProgress names_validator [] None (lock_command kError)
       = (True, None,
          (lock_command kError)
            \<lparr>self := (self (lock_command kError))\<lparr>m_status := kInProgress\<rparr>,
             calls := [OnStatusChanged 7]\<rparr>)"
  using SetProgress_contract [where st = "lock_command kError" and cdef = lock_setConfig
      and tvfj = names_validator and doc = "[]" and obj = "[]" and error = None]
  by (simp add: lock_defs terminal_def notify_def)

text \<open>
  C5, as the claim states it, fails on a cancelled command: the document is valid, yet the
  call returns failure and the command stays cancelled.
\<close>

theorem SetResults_on_cancelled_fails:
  "names_validator (results_schema lock_setConfig) [(''code'', IntegerValue 0)] None
     = Inr [(''code'', IntegerValue 0)]
   \<and> fst (SetResults names_validator [(''code'', IntegerValue 0)] None (lock_command kCancelled))
       = False
   \<and> m_status (self (snd (snd (SetResults names_validator [(''code'', IntegerValue 0)] None
                                  (lock_command kCancelled))))) = kCancelled"
  by (simp add: SetStatus_def SetResults_def lock_defs FOR_EACH_OBSERVER_def
      RemoveFromQueue_def ReportInvalidStateTransition_def)

text \<open>
  C5, amended. With a definition attached and a document the results schema accepts,
  \<^verbatim>\<open>SetResults\<close> replaces the results (telling the observers when the value differs), then
  attempts the transition to \<^verbatim>\<open>Done\<close>, then asks the owning queue, if there is one, for the
  removal. The transition, and with it the call, succeeds unless the command is cancelled,
  aborted or expired, where the call returns the \<^verbatim>\<open>InvalidStateTransition\<close> failure. With
  a document the schema rejects, the call returns the validator's error and changes nothing.
\<close>

theorem SetResults_contract:
  assumes "m_command_definition (self st) = Some cdef"
  shows
    "(tvfj (results_schema cdef) doc error = Inr obj \<longrightarrow>
        SetResults tvfj doc error st =
          (if m_status (self st) = kCancelled \<or> m_status (self st) = kAborted
              \<or> m_status (self st) = kExpired then
             (False, InvalidStateTransition error (m_status (self st)) kDone,
              st\<lparr>self := (self st)\<lparr>m_results := obj\<rparr>,
                 calls := calls st
                   @ notify (obj \<noteq> m_results (self st)) OnResultsChanged (self st)
                   @ removal (self st)\<rparr>)
           else
             (True, error,
              st\<lparr>self := (self st)\<lparr>m_results := obj, m_status := kDone\<rparr>,
                 calls := calls st
                   @ notify (obj \<noteq> m_results (self st)) OnResultsChanged (self st)
                   @ notify (m_status (self st) \<noteq> kDone) OnStatusChanged (self st)
                   @ removal (self st)\<rparr>)))
     \<and> (tvfj (results_schema cdef) bad error = Inl e \<longrightarrow>
        SetResults tvfj bad error st = (False, e, st))"
proof -
  have rejected: "SetResults tvfj bad error st = (False, e, st)"
    if "tvfj (results_schema cdef) bad error = Inl e"
    using assms that by (simp add: SetResults_def)
  have accepted: "SetResults tvfj doc error st =
          (if m_status (self st) = kCancelled \<or> m_status (self st) = kAborted
              \<or> m_status (self st) = kExpired then
             (False, InvalidStateTransition error (m_status (self st)) kDone,
              st\<lparr>self := (self st)\<lparr>m_results := obj\<rparr>,
                 calls := calls st
                   @ notify (obj \<noteq> m_results (self st)) OnResultsChanged (self st)
                   @ removal (self st)\<rparr>)
           else
             (True, error,
              st\<lparr>self := (self st)\<lparr>m_results := obj, m_status := kDone\<rparr>,
                 calls := calls st
                   @ notify (obj \<noteq> m_results (self st)) OnResultsChanged (self st)
                   @ notify (m_status (self st) \<noteq> kDone) OnStatusChanged (self st)
                   @ removal (self st)\<rparr>))"
    if valid: "tvfj (results_schema cdef) doc error = Inr obj"
  proof -
    define st1 where "st1 =
      st\<lparr>self := (self st)\<lparr>m_results := obj\<rparr>,
         calls := calls st @ notify (obj \<noteq> m_results (self st)) OnResultsChanged (self st)\<rparr>"
    have st1: "(if obj \<noteq> m_results (self st)
                then FOR_EACH_OBSERVER OnResultsChanged (st\<lparr>self := (self st)\<lparr>m_results := obj\<rparr>\<rparr>)
                else st) = st1"
      by (simp add: st1_def FOR_EACH_OBSERVER_def notify_def)
    have unfolded: "SetResults tvfj doc error st =
        (case SetStatus kDone error st1 of (result, e, st2) \<Rightarrow> (result, e, RemoveFromQueue st2))"
      using assms valid by (simp add: SetResults_def Let_def st1)
    have fields: "m_status (self st1) = m_status (self st)" "m_queue (self st1) = m_queue (self st)"
      "m_id (self st1) = m_id (self st)" "m_observers (self st1) = m_observers (self st)"
      by (simp_all add: st1_def)
    show ?thesis
      unfolding unfolded SetStatus_cases [of kDone error st1, simplified]
      by (cases "m_status (self st)")
        (simp_all add: fields terminal_def RemoveFromQueue_def removal_def notify_def st1_def
          split: option.split)
  qed
  from rejected accepted show ?thesis
    by blast
qed

theorem SetResults_contract_witness:
  "m_command_definition (self (lock_command kInProgress)) = Some lock_setConfig
   \<and> names_validator (results_schema lock_setConfig) [(''code'', IntegerValue 0)] None
       = Inr [(''code'', IntegerValue 0)]
   \<and> names_validator (results_schema lock_setConfig) [(''cod'', IntegerValue 0)] None
       = Inl (Some (Error commands_kDomain (OtherCode ''unexpected_parameter'')
                      ''Unrecognized property'' None))
   \<and> SetResults names_validator [(''code'', IntegerValue 0)] None (lock_command kInProgress)
       = (True, None,
          (lock_command kInProgress)
            \<lparr>self := (self (lock_command kInProgress))
                       \<lparr>m_results := [(''code'', IntegerValue 0)], m_status := kDone\<rparr>,
             calls := [OnResultsChanged 7, OnStatusChanged 7, DelayedRemove 3 ''1'']\<rparr>)
   \<and> SetResults names_validator [(''cod'', IntegerValue 0)] None (lock_command kInProgress)
       = (False,
          Some (Error commands_kDomain (OtherCode ''unexpected_parameter'')
                  ''Unrecognized property'' None),
          lock_command kInProgress)"
  using SetResults_contract [where st = "lock_command kInProgress" and cdef = lock_setConfig
      and tvfj = names_validator and doc = "[(''code'', IntegerValue 0)]"
      and obj = "[(''code'', IntegerValue 0)]" and error = None
      and bad = "[(''cod'', IntegerValue 0)]"
      and e = "Some (Error commands_kDomain (OtherCode ''unexpected_parameter'')
                       ''Unrecognized property'' None)"]
  by (simp add: lock_defs notify_def removal_def AddTo_def)

subsection \<open>\<^verbatim>\<open>FromJson\<close>\<close>

lemma Get_Set_dict: "Get (Set_dict k v d) k' = (if k' = k then Some v else Get d k')"
  by (induction d) (auto simp: Get_def)

lemma GetString_Set_dict:
  "k' \<noteq> k \<Longrightarrow> GetString (Set_dict k v d) k' = GetString d k'"
  by (simp add: GetString_def Get_Set_dict)

lemma best_effort_id_GetString:
  "(case GetString json kCommand_Id of Some s \<Rightarrow> s | None \<Rightarrow> [])
     = best_effort_id (DictionaryValue json)"
proof (cases "map_of json ''id''")
  case None
  then show ?thesis
    by (simp add: GetString_def Get_def kCommand_Id_def)
next
  case (Some v)
  then show ?thesis
    by (cases v) (simp_all add: GetString_def Get_def kCommand_Id_def)
qed

lemma best_effort_id_not_object: "GetAsDictionary v = None \<Longrightarrow> best_effort_id v = []"
  by (cases v) simp_all

lemma FromJson_not_object:
  "GetAsDictionary v = None \<Longrightarrow>
   FromJson tvfj v origin dictionary error =
     (None, [], Some (Error json_kDomain kObjectExpected
                        ''Command instance is not a JSON object'' error))"
  by (simp add: FromJson_def AddTo_def)

lemma FromJson_name_missing:
  "GetString json kCommand_Name = None \<Longrightarrow>
   FromJson tvfj (DictionaryValue json) origin dictionary error =
     (None, best_effort_id (DictionaryValue json),
      Some (Error commands_kDomain kPropertyMissing ''Command name is missing'' error))"
  by (simp add: FromJson_def AddTo_def best_effort_id_GetString del: best_effort_id.simps)

lemma FromJson_unknown_command:
  "GetString json kCommand_Name = Some name \<Longrightarrow> FindCommand dictionary name = None \<Longrightarrow>
   FromJson tvfj (DictionaryValue json) origin dictionary error =
     (None, best_effort_id (DictionaryValue json),
      Some (Error commands_kDomain kInvalidCommandName
              (''Unknown command received: '' @ name) error))"
  by (simp add: FromJson_def AddTo_def best_effort_id_GetString del: best_effort_id.simps)

lemma FromJson_rejected_parameters:
  "GetString json kCommand_Name = Some name \<Longrightarrow> FindCommand dictionary name = Some cdef \<Longrightarrow>
   GetCommandParameters tvfj json cdef error = Inl e \<Longrightarrow>
   FromJson tvfj (DictionaryValue json) origin dictionary error =
     (None, best_effort_id (DictionaryValue json),
      Some (Error commands_kDomain kCommandFailed
              (''Failed to validate command '' @ quoted name) e))"
  by (simp add: FromJson_def AddTo_def best_effort_id_GetString del: best_effort_id.simps)

lemma FromJson_accepted:
  "GetString json kCommand_Name = Some name \<Longrightarrow> FindCommand dictionary name = Some cdef \<Longrightarrow>
   GetCommandParameters tvfj json cdef error = Inr parameters \<Longrightarrow>
   FromJson tvfj (DictionaryValue json) origin dictionary error =
     (Some ((CommandInstance name origin cdef parameters)
              \<lparr>m_id := best_effort_id (DictionaryValue json)\<rparr>),
      best_effort_id (DictionaryValue json), error)"
  by (auto simp add: FromJson_def best_effort_id_GetString SetID_def CommandInstance_def Let_def
      simp del: best_effort_id.simps)

text \<open>
  C6. \<^verbatim>\<open>FromJson\<close> fails on each of four kinds of input, and each time it returns no
  instance, the best-effort id of the request and a new error on top of the slot: a value
  that is not an object (object-expected, the id empty), an object without a string under
  \<^verbatim>\<open>name\<close> (property-missing), an object whose name the dictionary does not know
  (\<^verbatim>\<open>InvalidCommandName\<close>), and an object of a known command whose parameters are rejected
  (command-failed, on top of what reading the parameters left in the slot). These are the
  only failures: whenever no instance is returned, the id returned is the best-effort id
  and the error on top of the slot has one of these four codes.
\<close>

theorem FromJson_failure:
  "(GetAsDictionary v1 = None \<longrightarrow>
      best_effort_id v1 = []
      \<and> FromJson tvfj v1 origin dictionary error =
          (None, best_effort_id v1,
           Some (Error json_kDomain kObjectExpected
                   ''Command instance is not a JSON object'' error)))
   \<and> (GetString j2 kCommand_Name = None \<longrightarrow>
      FromJson tvfj (DictionaryValue j2) origin dictionary error =
        (None, best_effort_id (DictionaryValue j2),
         Some (Error commands_kDomain kPropertyMissing ''Command name is missing'' error)))
   \<and> (GetString j3 kCommand_Name = Some n3 \<and> FindCommand dictionary n3 = None \<longrightarrow>
      FromJson tvfj (DictionaryValue j3) origin dictionary error =
        (None, best_effort_id (DictionaryValue j3),
         Some (Error commands_kDomain kInvalidCommandName
                 (''Unknown command received: '' @ n3) error)))
   \<and> (GetString j4 kCommand_Name = Some n4 \<and> FindCommand dictionary n4 = Some cdef
        \<and> GetCommandParameters tvfj j4 cdef error = Inl e \<longrightarrow>
      FromJson tvfj (DictionaryValue j4) origin dictionary error =
        (None, best_effort_id (DictionaryValue j4),
         Some (Error commands_kDomain kCommandFailed
                 (''Failed to validate command '' @ quoted n4) e)))
   \<and> (fst (FromJson tvfj v origin dictionary error) = None \<longrightarrow>
      fst (snd (FromJson tvfj v origin dictionary error)) = best_effort_id v
      \<and> (map_option GetCode (snd (snd (FromJson tvfj v origin dictionary error)))
            = Some kObjectExpected
          \<or> map_option GetCode (snd (snd (FromJson tvfj v origin dictionary error)))
            = Some kPropertyMissing
          \<or> map_option GetCode (snd (snd (FromJson tvfj v origin dictionary error)))
            = Some kInvalidCommandName
          \<or> map_option GetCode (snd (snd (FromJson tvfj v origin dictionary error)))
            = Some kCommandFailed))"
proof -
  have not_object: "best_effort_id v1 = []
      \<and> FromJson tvfj v1 origin dictionary error =
          (None, best_effort_id v1,
           Some (Error json_kDomain kObjectExpected
                   ''Command instance is not a JSON object'' error))"
    if "GetAsDictionary v1 = None"
    using that by (simp add: FromJson_not_object best_effort_id_not_object)
  have nameless: "FromJson tvfj (DictionaryValue j2) origin dictionary error =
        (None, best_effort_id (DictionaryValue j2),
         Some (Error commands_kDomain kPropertyMissing ''Command name is missing'' error))"
    if "GetString j2 kCommand_Name = None"
    using that by (rule FromJson_name_missing)
  have unknown: "FromJson tvfj (DictionaryValue j3) origin dictionary error =
        (None, best_effort_id (DictionaryValue j3),
         Some (Error commands_kDomain kInvalidCommandName
                 (''Unknown command received: '' @ n3) error))"
    if "GetString j3 kCommand_Name = Some n3" "FindCommand dictionary n3 = None"
    using that by (rule FromJson_unknown_command)
  have rejected: "FromJson tvfj (DictionaryValue j4) origin dictionary error =
        (None, best_effort_id (DictionaryValue j4),
         Some (Error commands_kDomain kCommandFailed
                 (''Failed to validate command '' @ quoted n4) e))"
    if "GetString j4 kCommand_Name = Some n4" "FindCommand dictionary n4 = Some cdef"
      "GetCommandParameters tvfj j4 cdef error = Inl e"
    using that by (rule FromJson_rejected_parameters)
  let ?r = "FromJson tvfj v origin dictionary error"
  have only: "fst (snd ?r) = best_effort_id v
      \<and> (map_option GetCode (snd (snd ?r)) = Some kObjectExpected
          \<or> map_option GetCode (snd (snd ?r)) = Some kPropertyMissing
          \<or> map_option GetCode (snd (snd ?r)) = Some kInvalidCommandName
          \<or> map_option GetCode (snd (snd ?r)) = Some kCommandFailed)"
    if failed: "fst ?r = None"
  proof (cases "GetAsDictionary v")
    case None
    then show ?thesis
      by (simp add: FromJson_not_object best_effort_id_not_object)
  next
    case (Some d)
    then have v: "v = DictionaryValue d"
      by (cases v) simp_all
    show ?thesis
    proof (cases "GetString d kCommand_Name")
      case None
      then show ?thesis
        unfolding v by (simp add: FromJson_name_missing del: best_effort_id.simps)
    next
      case name: (Some n)
      show ?thesis
      proof (cases "FindCommand dictionary n")
        case None
        with name show ?thesis
          unfolding v by (simp add: FromJson_unknown_command del: best_effort_id.simps)
      next
        case known: (Some cd)
        show ?thesis
        proof (cases "GetCommandParameters tvfj d cd error")
          case (Inl e')
          with name known show ?thesis
            unfolding v by (simp add: FromJson_rejected_parameters del: best_effort_id.simps)
        next
          case (Inr parameters)
          with name known failed show ?thesis
            unfolding v by (simp add: FromJson_accepted del: best_effort_id.simps)
        qed
      qed
    qed
  qed
  from not_object nameless unknown rejected only show ?thesis
    by blast
qed

theorem FromJson_failure_witness:
  "GetAsDictionary (ListValue []) = None
   \<and> FromJson names_validator (ListValue []) kCloud lock_dictionary None
       = (None, [],
          Some (Error json_kDomain kObjectExpected
                  ''Command instance is not a JSON object'' None))
   \<and> GetString [(''id'', StringValue ''5'')] kCommand_Name = None
   \<and> FromJson names_validator (DictionaryValue [(''id'', StringValue ''5'')])
        kCloud lock_dictionary None
       = (None, ''5'',
          Some (Error commands_kDomain kPropertyMissing ''Command name is missing'' None))
   \<and> FindCommand lock_dictionary ''unknown.cmd'' = None
   \<and> FromJson names_validator
        (DictionaryValue [(''id'', StringValue ''17''), (''name'', StringValue ''unknown.cmd'')])
        kCloud lock_dictionary None
       = (None, ''17'',
          Some (Error commands_kDomain kInvalidCommandName
                  ''Unknown command received: unknown.cmd'' None))
   \<and> FindCommand lock_dictionary ''lock.setConfig'' = Some lock_setConfig
   \<and> GetCommandParameters names_validator
        [(''id'', StringValue ''9''), (''name'', StringValue ''lock.setConfig''),
         (''parameters'', DictionaryValue [(''speed'', IntegerValue 1)])]
        lock_setConfig None
       = Inl (Some (Error commands_kDomain (OtherCode ''unexpected_parameter'')
                      ''Unrecognized property'' None))
   \<and> FromJson names_validator
        (DictionaryValue
           [(''id'', StringValue ''9''), (''name'', StringValue ''lock.setConfig''),
            (''parameters'', DictionaryValue [(''speed'', IntegerValue 1)])])
        kCloud lock_dictionary None
       = (None, ''9'',
          Some (Error commands_kDomain kCommandFailed
                  (''Failed to validate command '' @ quoted ''lock.setConfig'')
                  (Some (Error commands_kDomain (OtherCode ''unexpected_parameter'')
                           ''Unrecognized property'' None))))
   \<and> fst (snd (FromJson names_validator
        (DictionaryValue [(''id'', StringValue ''17''), (''name'', StringValue ''unknown.cmd'')])
        kCloud lock_dictionary None))
       = best_effort_id
           (DictionaryValue [(''id'', StringValue ''17''), (''name'', StringValue ''unknown.cmd'')])"
  using FromJson_failure [where tvfj = names_validator and origin = kCloud
      and dictionary = lock_dictionary and error = None
      and ?v1.0 = "ListValue []"
      and ?j2.0 = "[(''id'', StringValue ''5'')]"
      and ?j3.0 = "[(''id'', StringValue ''17''), (''name'', StringValue ''unknown.cmd'')]"
      and ?n3.0 = "''unknown.cmd''"
      and ?j4.0 = "[(''id'', StringValue ''9''), (''name'', StringValue ''lock.setConfig''),
                    (''parameters'', DictionaryValue [(''speed'', IntegerValue 1)])]"
      and ?n4.0 = "''lock.setConfig''" and cdef = lock_setConfig
      and e = "Some (Error commands_kDomain (OtherCode ''unexpected_parameter'')
                       ''Unrecognized property'' None)"
      and v = "DictionaryValue [(''id'', StringValue ''17''),
                                (''name'', StringValue ''unknown.cmd'')]"]
  by (simp add: GetString_def Get_def kCommand_defs FindCommand_def lock_dictionary_def
      GetCommandParameters_def names_validator_def lock_setConfig_def AddTo_def)

lemma GetCommandParameters_absent:
  "Get json kCommand_Parameters = None \<Longrightarrow>
   GetCommandParameters tvfj json cdef error = tvfj (parameters_schema cdef) [] error"
  by (simp add: GetCommandParameters_def)

lemma GetCommandParameters_empty_object:
  "GetCommandParameters tvfj (Set_dict kCommand_Parameters (DictionaryValue []) json) cdef error
     = tvfj (parameters_schema cdef) [] error"
  by (simp add: GetCommandParameters_def Get_Set_dict)

lemma GetCommandParameters_not_object:
  "Get json kCommand_Parameters = Some pv \<Longrightarrow> GetAsDictionary pv = None \<Longrightarrow>
   GetCommandParameters tvfj json cdef error =
     Inl (Some (Error json_kDomain kObjectExpected
                  (''Property '' @ quoted ''parameters'' @ '' must be a JSON object'') error))"
  by (simp add: GetCommandParameters_def AddTo_def kCommand_Parameters_def)

lemma FromJson_absent_parameters:
  assumes "Get json kCommand_Parameters = None"
  shows "FromJson tvfj (DictionaryValue json) origin dictionary error =
         FromJson tvfj (DictionaryValue (Set_dict kCommand_Parameters (DictionaryValue []) json))
           origin dictionary error"
proof -
  let ?json = "Set_dict kCommand_Parameters (DictionaryValue []) json"
  have same_id: "GetString ?json kCommand_Id = GetString json kCommand_Id"
    by (rule GetString_Set_dict) (simp add: kCommand_defs)
  have same_name: "GetString ?json kCommand_Name = GetString json kCommand_Name"
    by (rule GetString_Set_dict) (simp add: kCommand_defs)
  have same_parameters: "GetCommandParameters tvfj ?json cdef error
      = GetCommandParameters tvfj json cdef error" for cdef
    using assms by (simp add: GetCommandParameters_absent GetCommandParameters_empty_object)
  show ?thesis
    by (simp add: FromJson_def same_id same_name same_parameters split: option.split)
qed

lemma FromJson_not_object_parameters:
  assumes "Get json kCommand_Parameters = Some pv" and "GetAsDictionary pv = None"
  shows "fst (FromJson tvfj (DictionaryValue json) origin dictionary error) = None"
proof (cases "GetString json kCommand_Name")
  case None
  then show ?thesis
    by (simp add: FromJson_name_missing del: best_effort_id.simps)
next
  case name: (Some n)
  show ?thesis
  proof (cases "FindCommand dictionary n")
    case None
    with name show ?thesis
      by (simp add: FromJson_unknown_command del: best_effort_id.simps)
  next
    case (Some cdef)
    with name GetCommandParameters_not_object [OF assms, of tvfj cdef error] show ?thesis
      by (simp add: FromJson_rejected_parameters del: best_effort_id.simps)
  qed
qed

text \<open>
  C7, as the claim states it, fails on a request whose name the dictionary does not know:
  its \<^verbatim>\<open>parameters\<close> field is not an object, yet \<^verbatim>\<open>FromJson\<close> stops at the name, and no
  object-expected error is in the slot.
\<close>

theorem unknown_command_parameters_unread:
  "Get [(''name'', StringValue ''unknown.cmd''), (''parameters'', IntegerValue 5)]
     kCommand_Parameters = Some (IntegerValue 5)
   \<and> GetAsDictionary (IntegerValue 5) = None
   \<and> FromJson names_validator
        (DictionaryValue [(''name'', StringValue ''unknown.cmd''), (''parameters'', IntegerValue 5)])
        kCloud lock_dictionary None
       = (None, [],
          Some (Error commands_kDomain kInvalidCommandName
                  ''Unknown command received: unknown.cmd'' None))
   \<and> \<not> HasError
         (snd (snd (FromJson names_validator
                      (DictionaryValue [(''name'', StringValue ''unknown.cmd''),
                                        (''parameters'', IntegerValue 5)])
                      kCloud lock_dictionary None)))
         json_kDomain kObjectExpected"
  by (simp add: FromJson_def Get_def GetString_def kCommand_defs FindCommand_def
      lock_dictionary_def AddTo_def)

text \<open>
  C7, amended. A request object without a \<^verbatim>\<open>parameters\<close> field gives what the same request
  with \<^verbatim>\<open>parameters\<close> set to the empty object gives: the empty dictionary is validated
  against the parameter schema of the definition. A request object whose \<^verbatim>\<open>parameters\<close>
  field is not an object yields no instance; reading its parameters puts an object-expected
  error in the slot, and when the request names a command of the dictionary, so that its
  parameters are read, \<^verbatim>\<open>FromJson\<close> returns that error wrapped in the command-failed error.
\<close>

theorem FromJson_parameters:
  "(Get json kCommand_Parameters = None \<longrightarrow>
      FromJson tvfj (DictionaryValue json) origin dictionary error =
        FromJson tvfj (DictionaryValue (Set_dict kCommand_Parameters (DictionaryValue []) json))
          origin dictionary error
      \<and> GetCommandParameters tvfj json cdef error = tvfj (parameters_schema cdef) [] error)
   \<and> (Get req kCommand_Parameters = Some pv \<and> GetAsDictionary pv = None \<longrightarrow>
      fst (FromJson tvfj (DictionaryValue req) origin dictionary error) = None
      \<and> GetCommandParameters tvfj req cdef error =
          Inl (Some (Error json_kDomain kObjectExpected
                       (''Property '' @ quoted ''parameters'' @ '' must be a JSON object'') error))
      \<and> (GetString req kCommand_Name = Some name \<and> FindCommand dictionary name = Some cdef \<longrightarrow>
          FromJson tvfj (DictionaryValue req) origin dictionary error =
            (None, best_effort_id (DictionaryValue req),
             Some (Error commands_kDomain kCommandFailed
                     (''Failed to validate command '' @ quoted name)
                     (Some (Error json_kDomain kObjectExpected
                              (''Property '' @ quoted ''parameters'' @ '' must be a JSON object'')
                              error))))
          \<and> HasError (snd (snd (FromJson tvfj (DictionaryValue req) origin dictionary error)))
                json_kDomain kObjectExpected))"
proof -
  have absent: "FromJson tvfj (DictionaryValue json) origin dictionary error =
        FromJson tvfj (DictionaryValue (Set_dict kCommand_Parameters (DictionaryValue []) json))
          origin dictionary error
      \<and> GetCommandParameters tvfj json cdef error = tvfj (parameters_schema cdef) [] error"
    if "Get json kCommand_Parameters = None"
    using that FromJson_absent_parameters [OF that] by (simp add: GetCommandParameters_absent)
  have fails: "fst (FromJson tvfj (DictionaryValue req) origin dictionary error) = None"
    if "Get req kCommand_Parameters = Some pv" "GetAsDictionary pv = None"
    using that by (rule FromJson_not_object_parameters)
  have read: "GetCommandParameters tvfj req cdef error =
          Inl (Some (Error json_kDomain kObjectExpected
                       (''Property '' @ quoted ''parameters'' @ '' must be a JSON object'') error))"
    if "Get req kCommand_Parameters = Some pv" "GetAsDictionary pv = None"
    using that by (rule GetCommandParameters_not_object)
  have wrapped: "FromJson tvfj (DictionaryValue req) origin dictionary error =
            (None, best_effort_id (DictionaryValue req),
             Some (Error commands_kDomain kCommandFailed
                     (''Failed to validate command '' @ quoted name)
                     (Some (Error json_kDomain kObjectExpected
                              (''Property '' @ quoted ''parameters'' @ '' must be a JSON object'')
                              error))))"
    if "Get req kCommand_Parameters = Some pv" "GetAsDictionary pv = None"
      "GetString req kCommand_Name = Some name" "FindCommand dictionary name = Some cdef"
    using that(3,4) read [OF that(1,2)] by (rule FromJson_rejected_parameters)
  have has: "HasError (snd (snd (FromJson tvfj (DictionaryValue req) origin dictionary error)))
                json_kDomain kObjectExpected"
    if "Get req kCommand_Parameters = Some pv" "GetAsDictionary pv = None"
      "GetString req kCommand_Name = Some name" "FindCommand dictionary name = Some cdef"
    unfolding wrapped [OF that] by simp
  from absent fails read wrapped has show ?thesis
    by blast
qed

theorem FromJson_parameters_witness:
  "Get [(''id'', StringValue ''42''), (''name'', StringValue ''lock.setConfig'')] kCommand_Parameters
     = None
   \<and> FromJson names_validator
        (DictionaryValue [(''id'', StringValue ''42''), (''name'', StringValue ''lock.setConfig'')])
        kCloud lock_dictionary None
       = FromJson names_validator
           (DictionaryValue [(''id'', StringValue ''42''), (''name'', StringValue ''lock.setConfig''),
                             (''parameters'', DictionaryValue [])])
           kCloud lock_dictionary None
   \<and> Get [(''name'', StringValue ''lock.setConfig''), (''parameters'', IntegerValue 5)]
        kCommand_Parameters = Some (IntegerValue 5)
   \<and> GetAsDictionary (IntegerValue 5) = None
   \<and> FromJson names_validator
        (DictionaryValue [(''name'', StringValue ''lock.setConfig''), (''parameters'', IntegerValue 5)])
        kCloud lock_dictionary None
       = (None, [],
          Some (Error commands_kDomain kCommandFailed
                  (''Failed to validate command '' @ quoted ''lock.setConfig'')
                  (Some (Error json_kDomain kObjectExpected
                           (''Property '' @ quoted ''parameters'' @ '' must be a JSON object'')
                           None))))"
  using FromJson_parameters [where tvfj = names_validator and origin = kCloud
      and dictionary = lock_dictionary and error = None and cdef = lock_setConfig
      and json = "[(''id'', StringValue ''42''), (''name'', StringValue ''lock.setConfig'')]"
      and req = "[(''name'', StringValue ''lock.setConfig''), (''parameters'', IntegerValue 5)]"
      and pv = "IntegerValue 5" and name = "''lock.setConfig''"]
  by (simp add: Get_def GetString_def kCommand_defs FindCommand_def lock_dictionary_def)

subsection \<open>\<^verbatim>\<open>ToJson\<close>\<close>

lemma EnumToString_values:
  "EnumToString kQueued = ''queued''" "EnumToString kInProgress = ''inProgress''"
  "EnumToString kPaused = ''paused''" "EnumToString kError = ''error''"
  "EnumToString kDone = ''done''" "EnumToString kCancelled = ''cancelled''"
  "EnumToString kAborted = ''aborted''" "EnumToString kExpired = ''expired''"
  by (simp_all add: EnumToString_def kMapStatus_def)

lemma EnumToString_range:
  "EnumToString s \<in> {''queued'', ''inProgress'', ''paused'', ''error'', ''done'',
                      ''cancelled'', ''aborted'', ''expired''}"
  by (cases s) (simp_all add: EnumToString_values)

lemma ToJson_without_error:
  "m_error c = None \<Longrightarrow>
   ToJson tvtj eitj c =
     [(''id'', StringValue (m_id c)), (''name'', StringValue (m_name c)),
      (''parameters'', tvtj (m_parameters c)), (''progress'', tvtj (m_progress c)),
      (''results'', tvtj (m_results c)), (''state'', StringValue (EnumToString (m_status c)))]"
  by (simp add: ToJson_def SetString_def kCommand_defs)

lemma ToJson_with_error:
  "m_error c = Some e \<Longrightarrow>
   ToJson tvtj eitj c =
     [(''id'', StringValue (m_id c)), (''name'', StringValue (m_name c)),
      (''parameters'', tvtj (m_parameters c)), (''progress'', tvtj (m_progress c)),
      (''results'', tvtj (m_results c)), (''state'', StringValue (EnumToString (m_status c))),
      (''error'', eitj e)]"
  by (simp add: ToJson_def SetString_def kCommand_defs)

text \<open>
  C8. The document \<^verbatim>\<open>ToJson\<close> builds has the six fields \<^verbatim>\<open>id\<close>, \<^verbatim>\<open>name\<close>, \<^verbatim>\<open>parameters\<close>,
  \<^verbatim>\<open>progress\<close>, \<^verbatim>\<open>results\<close> and \<^verbatim>\<open>state\<close>, each once, and the field \<^verbatim>\<open>error\<close> exactly when the
  instance holds an error. The field \<^verbatim>\<open>state\<close> is the string of the status, one of the
  eight of the table.
\<close>

theorem ToJson_shape:
  "keys (ToJson tvtj eitj c) =
     {''id'', ''name'', ''parameters'', ''progress'', ''results'', ''state''}
       \<union> (if m_error c = None then {} else {''error''})
   \<and> distinct (map fst (ToJson tvtj eitj c))
   \<and> (''error'' \<in> keys (ToJson tvtj eitj c)) = (m_error c \<noteq> None)
   \<and> Get (ToJson tvtj eitj c) ''state'' = Some (StringValue (EnumToString (m_status c)))
   \<and> EnumToString (m_status c) \<in> {''queued'', ''inProgress'', ''paused'', ''error'', ''done'',
                                     ''cancelled'', ''aborted'', ''expired''}
   \<and> Get (ToJson tvtj eitj c) ''id'' = Some (StringValue (m_id c))
   \<and> Get (ToJson tvtj eitj c) ''name'' = Some (StringValue (m_name c))
   \<and> Get (ToJson tvtj eitj c) ''parameters'' = Some (tvtj (m_parameters c))
   \<and> Get (ToJson tvtj eitj c) ''progress'' = Some (tvtj (m_progress c))
   \<and> Get (ToJson tvtj eitj c) ''results'' = Some (tvtj (m_results c))
   \<and> Get (ToJson tvtj eitj c) ''error'' = map_option eitj (m_error c)"
proof (cases "m_error c")
  case None
  show ?thesis
    unfolding ToJson_without_error [OF None]
    using EnumToString_range [of "m_status c"] by (simp add: keys_def Get_def None)
next
  case (Some e)
  show ?thesis
    unfolding ToJson_with_error [OF Some]
    using EnumToString_range [of "m_status c"] by (simp add: keys_def Get_def Some insert_commute)
qed

theorem ToJson_shape_witness:
  "keys (ToJson DictionaryValue (\<lambda>e. StringValue (GetMessage e)) (self (lock_command kPaused)))
     = {''id'', ''name'', ''parameters'', ''progress'', ''results'', ''state''}
   \<and> Get (ToJson DictionaryValue (\<lambda>e. StringValue (GetMessage e)) (self (lock_command kPaused)))
        ''state'' = Some (StringValue ''paused'')
   \<and> keys (ToJson DictionaryValue (\<lambda>e. StringValue (GetMessage e))
             ((self (lock_command kError))
                \<lparr>m_error := Some (Error commands_kDomain (OtherCode ''jammed'') ''Jammed'' None)\<rparr>))
       = {''id'', ''name'', ''parameters'', ''progress'', ''results'', ''state'', ''error''}"
  using ToJson_shape [of DictionaryValue "\<lambda>e. StringValue (GetMessage e)"
      "self (lock_command kPaused)"]
    ToJson_shape [of DictionaryValue "\<lambda>e. StringValue (GetMessage e)"
      "(self (lock_command kError))
         \<lparr>m_error := Some (Error commands_kDomain (OtherCode ''jammed'') ''Jammed'' None)\<rparr>"]
  by (simp add: lock_defs EnumToString_values insert_commute)

subsection \<open>\<^verbatim>\<open>Abort\<close>, \<^verbatim>\<open>Cancel\<close> and \<^verbatim>\<open>SetError\<close> when the transition fails\<close>

lemma Abort_cases:
  "Abort ce error st =
     (if m_status (self st) = kAborted then
        (True, error,
         st\<lparr>self := (self st)\<lparr>m_error := ce\<rparr>, calls := calls st @ removal (self st)\<rparr>)
      else if terminal (m_status (self st)) then
        (False, InvalidStateTransition error (m_status (self st)) kAborted,
         st\<lparr>self := (self st)\<lparr>m_error := ce\<rparr>, calls := calls st @ removal (self st)\<rparr>)
      else
        (True, error,
         st\<lparr>self := (self st)\<lparr>m_error := ce, m_status := kAborted\<rparr>,
            calls := calls st @ map OnStatusChanged (m_observers (self st)) @ removal (self st)\<rparr>))"
  unfolding Abort_def map_option_Clone
    SetStatus_cases [of kAborted error "st\<lparr>self := (self st)\<lparr>m_error := ce\<rparr>\<rparr>", simplified]
  by (auto simp: RemoveFromQueue_def removal_def split: option.split)

lemma Cancel_cases:
  "Cancel error st =
     (if m_status (self st) = kCancelled then
        (True, error, st\<lparr>calls := calls st @ removal (self st)\<rparr>)
      else if terminal (m_status (self st)) then
        (False, InvalidStateTransition error (m_status (self st)) kCancelled,
         st\<lparr>calls := calls st @ removal (self st)\<rparr>)
      else
        (True, error,
         st\<lparr>self := (self st)\<lparr>m_status := kCancelled\<rparr>,
            calls := calls st @ map OnStatusChanged (m_observers (self st)) @ removal (self st)\<rparr>))"
  unfolding Cancel_def SetStatus_cases [of kCancelled error st, simplified]
  by (auto simp: RemoveFromQueue_def removal_def split: option.split)

lemma SetError_cases:
  "SetError ce error st =
     (if m_status (self st) = kError then
        (True, error, st\<lparr>self := (self st)\<lparr>m_error := ce\<rparr>\<rparr>)
      else if terminal (m_status (self st)) then
        (False, InvalidStateTransition error (m_status (self st)) kError,
         st\<lparr>self := (self st)\<lparr>m_error := ce\<rparr>\<rparr>)
      else
        (True, error,
         st\<lparr>self := (self st)\<lparr>m_error := ce, m_status := kError\<rparr>,
            calls := calls st @ map OnStatusChanged (m_observers (self st))\<rparr>))"
  unfolding SetError_def map_option_Clone
    SetStatus_cases [of kError error "st\<lparr>self := (self st)\<lparr>m_error := ce\<rparr>\<rparr>", simplified]
  by auto

text \<open>
  C9, as the claim states it, fails on a command that is aborted already, and on one that
  is cancelled already: the request is for the current status, so \<^verbatim>\<open>Abort\<close> (\<^verbatim>\<open>Cancel\<close>)
  returns success and leaves the error slot empty. The removal is requested all the same.
\<close>

theorem Abort_on_aborted_succeeds:
  "terminal (m_status (self (lock_command kAborted)))
   \<and> Abort None None (lock_command kAborted)
       = (True, None, (lock_command kAborted)\<lparr>calls := [DelayedRemove 3 ''1'']\<rparr>)
   \<and> terminal (m_status (self (lock_command kCancelled)))
   \<and> Cancel None (lock_command kCancelled)
       = (True, None, (lock_command kCancelled)\<lparr>calls := [DelayedRemove 3 ''1'']\<rparr>)"
  by (simp add: Abort_def Cancel_def SetStatus_def RemoveFromQueue_def lock_defs terminal_def
      map_option_Clone)

text \<open>
  C9, amended. On an instance that has an owning queue, \<^verbatim>\<open>Abort\<close> and \<^verbatim>\<open>Cancel\<close> end with
  the call of \<^verbatim>\<open>DelayedRemove\<close> on that queue for the id of the instance, after the
  notifications of the status change if there is one, whatever the transition returns. In
  a terminal status other than the requested one they return the \<^verbatim>\<open>InvalidStateTransition\<close>
  failure, and the removal request is the one call they make. \<^verbatim>\<open>Abort\<close> on an aborted
  command and \<^verbatim>\<open>Cancel\<close> on a cancelled one return success, the error slot as it was, and
  the removal request is again the one call they make.
\<close>

theorem Abort_Cancel_always_remove:
  assumes "m_queue (self st) = Some q"
  shows
    "calls (snd (snd (Abort ce error st))) =
       calls st @ notify (\<not> terminal (m_status (self st))) OnStatusChanged (self st)
         @ [DelayedRemove q (m_id (self st))]
     \<and> calls (snd (snd (Cancel error st))) =
       calls st @ notify (\<not> terminal (m_status (self st))) OnStatusChanged (self st)
         @ [DelayedRemove q (m_id (self st))]
     \<and> (terminal (m_status (self st)) \<and> m_status (self st) \<noteq> kAborted \<longrightarrow>
          fst (Abort ce error st) = False
          \<and> fst (snd (Abort ce error st))
              = InvalidStateTransition error (m_status (self st)) kAborted
          \<and> calls (snd (snd (Abort ce error st)))
              = calls st @ [DelayedRemove q (m_id (self st))])
     \<and> (terminal (m_status (self st)) \<and> m_status (self st) \<noteq> kCancelled \<longrightarrow>
          fst (Cancel error st) = False
          \<and> fst (snd (Cancel error st))
              = InvalidStateTransition error (m_status (self st)) kCancelled
          \<and> calls (snd (snd (Cancel error st)))
              = calls st @ [DelayedRemove q (m_id (self st))])
     \<and> (m_status (self st) = kAborted \<longrightarrow>
          fst (Abort ce error st) = True
          \<and> fst (snd (Abort ce error st)) = error
          \<and> calls (snd (snd (Abort ce error st)))
              = calls st @ [DelayedRemove q (m_id (self st))])
     \<and> (m_status (self st) = kCancelled \<longrightarrow>
          fst (Cancel error st) = True
          \<and> fst (snd (Cancel error st)) = error
          \<and> calls (snd (snd (Cancel error st)))
              = calls st @ [DelayedRemove q (m_id (self st))])"
proof -
  have removal: "removal (self st) = [DelayedRemove q (m_id (self st))]"
    using assms by (simp add: removal_def)
  have aborted: "terminal kAborted" and cancelled: "terminal kCancelled"
    by (simp_all add: terminal_def)
  show ?thesis
    unfolding Abort_cases Cancel_cases removal
    using aborted cancelled by (simp add: notify_def)
qed

theorem Abort_Cancel_always_remove_witness:
  "m_queue (self (lock_command kDone)) = Some 3
   \<and> terminal (m_status (self (lock_command kDone)))
   \<and> fst (Abort None None (lock_command kDone)) = False
   \<and> fst (snd (Abort None None (lock_command kDone)))
       = InvalidStateTransition None kDone kAborted
   \<and> calls (snd (snd (Abort None None (lock_command kDone)))) = [DelayedRemove 3 ''1'']
   \<and> fst (Cancel None (lock_command kDone)) = False
   \<and> fst (snd (Cancel None (lock_command kDone)))
       = InvalidStateTransition None kDone kCancelled
   \<and> calls (snd (snd (Cancel None (lock_command kDone)))) = [DelayedRemove 3 ''1'']
   \<and> m_status (self (lock_command kAborted)) = kAborted
   \<and> fst (Abort None None (lock_command kAborted)) = True
   \<and> calls (snd (snd (Abort None None (lock_command kAborted)))) = [DelayedRemove 3 ''1'']
   \<and> m_status (self (lock_command kCancelled)) = kCancelled
   \<and> fst (Cancel None (lock_command kCancelled)) = True
   \<and> calls (snd (snd (Cancel None (lock_command kCancelled)))) = [DelayedRemove 3 ''1'']
   \<and> calls (snd (snd (Abort None None (lock_command kPaused))))
       = [OnStatusChanged 7, DelayedRemove 3 ''1'']"
  using Abort_Cancel_always_remove [of "lock_command kDone" 3 None None]
    Abort_Cancel_always_remove [of "lock_command kAborted" 3 None None]
    Abort_Cancel_always_remove [of "lock_command kCancelled" 3 None None]
    Abort_Cancel_always_remove [of "lock_command kPaused" 3 None None]
  by (simp add: lock_defs terminal_def notify_def)

text \<open>
  C10. After \<^verbatim>\<open>SetError\<close> and after \<^verbatim>\<open>Abort\<close> the stored error is the one supplied (none
  when a null error was supplied), also when the call fails: in a terminal status
  \<^verbatim>\<open>SetError\<close> returns failure, and so does \<^verbatim>\<open>Abort\<close> unless the command is aborted already,
  with status, progress and results as they were and the error replaced.
\<close>

theorem SetError_Abort_replace_error_first:
  "GetError (self (snd (snd (SetError ce error st)))) = ce
   \<and> GetError (self (snd (snd (Abort ce error st)))) = ce
   \<and> (terminal (m_status (self st)) \<longrightarrow>
        SetError ce error st =
          (False, InvalidStateTransition error (m_status (self st)) kError,
           st\<lparr>self := (self st)\<lparr>m_error := ce\<rparr>\<rparr>))
   \<and> (terminal (m_status (self st)) \<and> m_status (self st) \<noteq> kAborted \<longrightarrow>
        Abort ce error st =
          (False, InvalidStateTransition error (m_status (self st)) kAborted,
           st\<lparr>self := (self st)\<lparr>m_error := ce\<rparr>, calls := calls st @ removal (self st)\<rparr>))"
proof -
  have not_error: "m_status (self st) \<noteq> kError" if "terminal (m_status (self st))"
    using that by (auto simp: terminal_def)
  show ?thesis
    unfolding SetError_cases Abort_cases GetError_def
    using not_error by simp
qed

theorem SetError_Abort_replace_error_first_witness:
  "terminal (m_status (self (lock_command kDone)))
   \<and> GetError (self ((lock_command kDone)
        \<lparr>self := (self (lock_command kDone))
           \<lparr>m_error := Some (Error commands_kDomain (OtherCode ''jammed'') ''Jammed'' None)\<rparr>\<rparr>))
       = Some (Error commands_kDomain (OtherCode ''jammed'') ''Jammed'' None)
   \<and> fst (SetError None None ((lock_command kDone)
        \<lparr>self := (self (lock_command kDone))
           \<lparr>m_error := Some (Error commands_kDomain (OtherCode ''jammed'') ''Jammed'' None)\<rparr>\<rparr>))
       = False
   \<and> GetError (self (snd (snd (SetError None None ((lock_command kDone)
        \<lparr>self := (self (lock_command kDone))
           \<lparr>m_error := Some (Error commands_kDomain (OtherCode ''jammed'') ''Jammed'' None)\<rparr>\<rparr>)))))
       = None
   \<and> fst (Abort None None ((lock_command kDone)
        \<lparr>self := (self (lock_command kDone))
           \<lparr>m_error := Some (Error commands_kDomain (OtherCode ''jammed'') ''Jammed'' None)\<rparr>\<rparr>))
       = False
   \<and> GetError (self (snd (snd (Abort None None ((lock_command kDone)
        \<lparr>self := (self (lock_command kDone))
           \<lparr>m_error := Some (Error commands_kDomain (OtherCode ''jammed'') ''Jammed'' None)\<rparr>\<rparr>)))))
       = None"
  using SetError_Abort_replace_error_first [of None None "(lock_command kDone)
        \<lparr>self := (self (lock_command kDone))
           \<lparr>m_error := Some (Error commands_kDomain (OtherCode ''jammed'') ''Jammed'' None)\<rparr>\<rparr>"]
  by (simp add: lock_defs terminal_def GetError_def)

end
